theory Spec2Isabelle
  imports Main "HOL-Library.Sublist"
begin

section \<open>The WhatsApp session manager (whatsappBaileys.ts)\<close>

subsection \<open>JavaScript values\<close>

text \<open>
  A JavaScript string is modelled as a \<open>string\<close>; a \<open>char\<close> stands for one code unit
  below 256, which covers every literal of the module (the accented letters of the
  Portuguese messages are written with their code, \<open>CHR 0xE3\<close> for a-tilde).
  A value that may be \<open>null\<close> or \<open>undefined\<close> is an \<open>option\<close>.
\<close>

definition truthy :: "string option \<Rightarrow> bool" where
  \<comment> \<open>\<open>if (x)\<close> on a string that may be absent: absent and the empty string are falsy\<close>
  "truthy x = (case x of None \<Rightarrow> False | Some v \<Rightarrow> v \<noteq> [])"

definition or_else :: "string option \<Rightarrow> string \<Rightarrow> string" where
  \<comment> \<open>\<open>x || d\<close> on a string that may be absent\<close>
  "or_else x d = (case x of None \<Rightarrow> d | Some v \<Rightarrow> if v \<noteq> [] then v else d)"

text \<open>The object \<open>{ success, error?, messageId? }\<close> returned by the exported functions.\<close>

record wa_result =
  success :: bool
  error :: "string option"
  messageId :: "string option"

subsection \<open>Module state\<close>

text \<open>
  The module variables \<open>sock\<close>, \<open>isConnected\<close> and \<open>qrCode\<close>, together with the part of
  the world the module acts on: the directory \<open>AUTH_DIR\<close> (\<open>None\<close> when it does not
  exist, otherwise its content), the sockets made by \<open>makeWASocket\<close> that have not
  closed, and logs of the calls made: the number of sockets made (a socket is named by
  its number), the number of entries into \<open>initWhatsAppConnection\<close>, and the calls of
  \<open>sock.sendMessage\<close> as (socket, jid, text), latest first. An invocation of
  \<open>initWhatsAppConnection\<close> suspends twice, at \<open>await useMultiFileAuthState\<close> and at
  \<open>await fetchLatestBaileysVersion\<close>; the state counts the invocations suspended at
  each of the two, which hold no local state that the rest of the function reads from the
  module.
\<close>

type_synonym socket = nat

record manager =
  sock :: "socket option"
  isConnected :: bool
  qrCode :: "string option"
  auth_dir :: "string option"
  live :: "socket list"
  made :: nat
  inits :: nat
  sent :: "(socket \<times> string \<times> string) list"
  awaiting_auth :: nat
  awaiting_version :: nat

definition boot :: "string option \<Rightarrow> manager" where
  \<comment> \<open>the module variables as initialised at load, over a given \<open>AUTH_DIR\<close>\<close>
  "boot dir = \<lparr>sock = None, isConnected = False, qrCode = None, auth_dir = dir,
     live = [], made = 0, inits = 0, sent = [], awaiting_auth = 0, awaiting_version = 0\<rparr>"

definition in_progress :: "manager \<Rightarrow> nat" where
  \<comment> \<open>the invocations of \<open>initWhatsAppConnection\<close> that have started and not returned\<close>
  "in_progress s = awaiting_auth s + awaiting_version s"

subsection \<open>initWhatsAppConnection\<close>

text \<open>
  The function is \<open>async\<close> and none of its callers awaits it (the listener and the last
  line of the module), so it runs in three parts, and anything else may run between them:
  the call itself, up to \<open>await useMultiFileAuthState\<close>; the resumption from there up to
  \<open>await fetchLatestBaileysVersion\<close>; and the resumption from there to the \<open>return\<close>.
  What the library calls of each part do is a parameter: they succeed, or one throws with
  its \<open>error.message\<close> and the \<open>catch\<close> returns the failure. In the call the only one that
  may throw is \<open>fs.mkdirSync\<close>, called when the directory is missing. Each part gives the
  value the promise settles with, if it settles in that part, and the state. A resumption
  when no invocation is suspended there does nothing.
\<close>

datatype outcome = Succeeds | Throws "string option"

definition initWhatsAppConnection :: "outcome \<Rightarrow> manager \<Rightarrow> wa_result option \<times> manager" where
  "initWhatsAppConnection mkdir s =
    (let s0 = s\<lparr>inits := Suc (inits s)\<rparr> in
     if auth_dir s0 = None then
       (case mkdir of
          Throws m \<Rightarrow> (Some \<lparr>success = False, error = m, messageId = None\<rparr>, s0)
        | Succeeds \<Rightarrow>
            (None, s0\<lparr>auth_dir := Some [], awaiting_auth := Suc (awaiting_auth s0)\<rparr>))
     else (None, s0\<lparr>awaiting_auth := Suc (awaiting_auth s0)\<rparr>))"

definition after_auth_state :: "outcome \<Rightarrow> manager \<Rightarrow> wa_result option \<times> manager" where
  \<comment> \<open>from \<open>await useMultiFileAuthState\<close> to \<open>await fetchLatestBaileysVersion\<close>\<close>
  "after_auth_state auth s =
    (if awaiting_auth s = 0 then (None, s)
     else
       (let s0 = s\<lparr>awaiting_auth := awaiting_auth s - 1\<rparr> in
        case auth of
          Throws m \<Rightarrow> (Some \<lparr>success = False, error = m, messageId = None\<rparr>, s0)
        | Succeeds \<Rightarrow> (None, s0\<lparr>awaiting_version := Suc (awaiting_version s0)\<rparr>)))"

definition after_version :: "outcome \<Rightarrow> manager \<Rightarrow> wa_result option \<times> manager" where
  \<comment> \<open>from \<open>await fetchLatestBaileysVersion\<close> through \<open>sock = makeWASocket\<close> to the \<open>return\<close>\<close>
  "after_version setup s =
    (if awaiting_version s = 0 then (None, s)
     else
       (let s0 = s\<lparr>awaiting_version := awaiting_version s - 1\<rparr> in
        case setup of
          Throws m \<Rightarrow> (Some \<lparr>success = False, error = m, messageId = None\<rparr>, s0)
        | Succeeds \<Rightarrow>
            (Some \<lparr>success = True, error = None, messageId = None\<rparr>,
             s0\<lparr>sock := Some (made s0), live := made s0 # live s0, made := Suc (made s0)\<rparr>)))"

subsection \<open>The connection.update listener\<close>

datatype wa_connection = Close | Open | Connecting

text \<open>
  The fields the listener reads from an update; \<open>statusCode\<close> is
  \<open>lastDisconnect?.error?.output?.statusCode\<close>, absent when any link of the chain is.
  The listener does not await the reconnection: it runs the call of
  \<open>initWhatsAppConnection\<close> up to its first \<open>await\<close> and returns.
\<close>

record update =
  connection :: "wa_connection option"
  statusCode :: "int option"
  qr :: "string option"

definition loggedOut :: int where
  \<comment> \<open>\<open>DisconnectReason.loggedOut\<close> of the Baileys library\<close>
  "loggedOut = 401"

definition on_connection_update :: "outcome \<Rightarrow> update \<Rightarrow> manager \<Rightarrow> manager" where
  "on_connection_update env u s =
    (let s1 = (if truthy (qr u) then s\<lparr>qrCode := qr u\<rparr> else s) in
     if connection u = Some Close then
       (let shouldReconnect = (statusCode u \<noteq> Some loggedOut);
            s2 = s1\<lparr>isConnected := False\<rparr>
        in if shouldReconnect then snd (initWhatsAppConnection env s2) else s2)
     else if connection u = Some Open then s1\<lparr>isConnected := True, qrCode := None\<rparr>
     else s1)"

subsection \<open>enviarMensagemBaileys\<close>

definition is_digit :: "char \<Rightarrow> bool" where
  \<comment> \<open>the complement of the class \<open>\D\<close>\<close>
  "is_digit c = (c \<in> set ''0123456789'')"

definition formatarTelefone :: "string \<Rightarrow> string" where
  \<comment> \<open>\<open>telefoneFormatado\<close>: \<open>replace(/\D/g, "")\<close>, then \<open>"55" +\<close> unless \<open>startsWith("55")\<close>\<close>
  "formatarTelefone telefone =
    (let telefoneFormatado = filter is_digit telefone in
     if \<not> prefix ''55'' telefoneFormatado then ''55'' @ telefoneFormatado
     else telefoneFormatado)"

definition telefoneDestino :: "string \<Rightarrow> string" where
  \<comment> \<open>the same two statements in \<open>enviarMensagemWhatsApp\<close>, the Z-API path\<close>
  "telefoneDestino telefone =
    (let d = filter is_digit telefone in
     if \<not> prefix ''55'' d then ''55'' @ d else d)"

definition jid_of :: "string \<Rightarrow> string" where
  "jid_of telefone = formatarTelefone telefone @ ''@s.whatsapp.net''"

datatype send_outcome = Resolves "string option" | Rejects "string option"

text \<open>
  What \<open>sock.sendMessage\<close> does is a parameter: \<open>Resolves i\<close> when the promise resolves,
  \<open>i\<close> being \<open>result?.key?.id\<close>, and \<open>Rejects m\<close> when it throws, \<open>m\<close> being
  \<open>error.message\<close>.
\<close>

definition msg_not_connected :: string where
  "msg_not_connected = ''WhatsApp n'' @ [CHR 0xE3] @
     ''o conectado. Escaneie o QR Code em Configura'' @ [CHR 0xE7, CHR 0xF5] @ ''es.''"

definition enviarMensagemBaileys ::
  "send_outcome \<Rightarrow> string \<Rightarrow> string \<Rightarrow> manager \<Rightarrow> wa_result \<times> manager" where
  "enviarMensagemBaileys tr telefone mensagem s =
    (case sock s of
       None \<Rightarrow> (\<lparr>success = False, error = Some msg_not_connected, messageId = None\<rparr>, s)
     | Some k \<Rightarrow>
         if \<not> isConnected s
         then (\<lparr>success = False, error = Some msg_not_connected, messageId = None\<rparr>, s)
         else
           (let jid = jid_of telefone;
                s' = s\<lparr>sent := (k, jid, mensagem) # sent s\<rparr>
            in case tr of
                 Resolves i \<Rightarrow>
                   (\<lparr>success = True, error = None, messageId = Some (or_else i ''sent'')\<rparr>, s')
               | Rejects m \<Rightarrow>
                   (\<lparr>success = False, error = Some (or_else m ''Erro ao enviar mensagem''),
                     messageId = None\<rparr>, s')))"

subsection \<open>getWhatsAppStatus\<close>

record wa_status =
  connected :: bool
  status_qrCode :: "string option"

definition getWhatsAppStatus :: "manager \<Rightarrow> wa_status" where
  "getWhatsAppStatus s = \<lparr>connected = isConnected s, status_qrCode = qrCode s\<rparr>"

subsection \<open>disconnectWhatsApp\<close>

text \<open>
  The function has no \<open>try\<close>: when \<open>sock.logout()\<close> or \<open>fs.rmSync\<close> throws, the statements
  after it are not run and the error reaches the caller. The result is the error thrown,
  if any, and the state left behind. A socket that has logged out is no longer live.
\<close>

datatype logout_env = LogoutOk | LogoutThrows string | RmThrows string

definition disconnectWhatsApp :: "logout_env \<Rightarrow> manager \<Rightarrow> string option \<times> manager" where
  "disconnectWhatsApp env s =
    (case sock s of
       None \<Rightarrow> (None, s)
     | Some k \<Rightarrow>
         (case env of
            LogoutThrows e \<Rightarrow> (Some e, s)
          | RmThrows e \<Rightarrow>
              (let s1 = s\<lparr>live := removeAll k (live s), sock := None, isConnected := False,
                          qrCode := None\<rparr>
               in if auth_dir s1 \<noteq> None then (Some e, s1) else (None, s1))
          | LogoutOk \<Rightarrow>
              (None, s\<lparr>live := removeAll k (live s), sock := None, isConnected := False,
                       qrCode := None, auth_dir := None\<rparr>)))"

definition credentials :: "manager \<Rightarrow> string option" where
  \<comment> \<open>what is persisted under \<open>AUTH_DIR\<close>: absent when the directory is missing or empty\<close>
  "credentials s = (case auth_dir s of None \<Rightarrow> None | Some c \<Rightarrow> if c = [] then None else Some c)"

subsection \<open>Runs of the module\<close>

text \<open>
  A socket delivers updates to the listener only while it is live, and an update with
  \<open>connection = "close"\<close> is the last one of its socket. The module is driven by
  exported calls, by the resumption of suspended invocations of
  \<open>initWhatsAppConnection\<close>, and by the updates of its sockets.
\<close>

definition emit :: "outcome \<Rightarrow> socket \<Rightarrow> update \<Rightarrow> manager \<Rightarrow> manager" where
  "emit env i u s =
    (if i \<in> set (live s)
     then on_connection_update env u
            (if connection u = Some Close then s\<lparr>live := removeAll i (live s)\<rparr> else s)
     else s)"

datatype action =
    Connect outcome
  | ResumeAuth outcome
  | ResumeVersion outcome
  | Emit outcome socket update
  | Send send_outcome string string
  | Logout logout_env

fun step :: "action \<Rightarrow> manager \<Rightarrow> manager" where
  "step (Connect env) s = snd (initWhatsAppConnection env s)"
| "step (ResumeAuth env) s = snd (after_auth_state env s)"
| "step (ResumeVersion env) s = snd (after_version env s)"
| "step (Emit env i u) s = emit env i u s"
| "step (Send tr telefone mensagem) s = snd (enviarMensagemBaileys tr telefone mensagem s)"
| "step (Logout env) s = snd (disconnectWhatsApp env s)"

fun run :: "action list \<Rightarrow> manager \<Rightarrow> manager" where
  "run [] s = s"
| "run (a # as) s = run as (step a s)"

fun is_Connect :: "action \<Rightarrow> bool" where
  "is_Connect (Connect env) = True"
| "is_Connect a = False"

section \<open>The notification gateway (mensagens.create)\<close>

text \<open>
  The rows the procedure reads and writes. The object given to \<open>db.createMensagem\<close> is
  the validated input spread out, followed by \<open>status\<close>, \<open>dataEnvio\<close> and \<open>usuarioId\<close>;
  \<open>new Date()\<close> is a parameter, a number of milliseconds.
\<close>

datatype tipo_mensagem = Automatica | Promocao | Data_especial | Manual

record create_input =
  clienteId :: int
  tipo :: tipo_mensagem
  conteudo :: string

record mensagem = create_input +
  status :: string
  dataEnvio :: "nat option"
  usuarioId :: "string option"

record cliente =
  cliente_id :: int
  telefone :: "string option"

record database =
  available :: bool
  clientes :: "cliente list"
  mensagens :: "mensagem list"

definition getClienteById :: "database \<Rightarrow> int \<Rightarrow> cliente option" where
  "getClienteById d i =
    (if \<not> available d then None else find (\<lambda>c. cliente_id c = i) (clientes d))"

text \<open>
  \<open>createMensagem\<close> throws when there is no database handle; whether the insert itself
  throws is a parameter (\<open>Some e\<close> when it does).
\<close>

definition createMensagem :: "string option \<Rightarrow> mensagem \<Rightarrow> database \<Rightarrow> string + database" where
  "createMensagem ins m d =
    (if \<not> available d then Inl ''Database not available''
     else case ins of
            Some e \<Rightarrow> Inl e
          | None \<Rightarrow> Inr (d\<lparr>mensagens := mensagens d @ [m]\<rparr>))"

datatype gw_error = BadRequest | Thrown string

definition msg_no_cliente :: string where
  "msg_no_cliente = ''Cliente n'' @ [CHR 0xE3] @ ''o encontrado''"

definition msg_no_telefone :: string where
  "msg_no_telefone = ''Cliente n'' @ [CHR 0xE3] @ ''o possui telefone cadastrado''"

definition mensagens_create ::
  "send_outcome \<Rightarrow> string option \<Rightarrow> nat \<Rightarrow> string option \<Rightarrow> create_input \<Rightarrow>
   manager \<times> database \<Rightarrow> (gw_error + wa_result) \<times> manager \<times> database" where
  "mensagens_create tr ins now usuario input st =
    (let s = fst st; d = snd st in
     if conteudo input = [] then (Inl BadRequest, s, d)
     else
       case getClienteById d (clienteId input) of
         None \<Rightarrow> (Inl (Thrown msg_no_cliente), s, d)
       | Some c \<Rightarrow>
           (case telefone c of
              None \<Rightarrow> (Inl (Thrown msg_no_telefone), s, d)
            | Some tel \<Rightarrow>
                if tel = [] then (Inl (Thrown msg_no_telefone), s, d)
                else
                  (let r = enviarMensagemBaileys tr tel (conteudo input) s;
                       resultado = fst r; s' = snd r;
                       row = \<lparr>clienteId = clienteId input, tipo = tipo input,
                              conteudo = conteudo input,
                              status = (if success resultado then ''enviada'' else ''erro''),
                              dataEnvio = (if success resultado then Some now else None),
                              usuarioId = usuario\<rparr>
                   in case createMensagem ins row d of
                        Inl e \<Rightarrow> (Inl (Thrown e), s', d)
                      | Inr d' \<Rightarrow>
                          if \<not> success resultado
                          then (Inl (Thrown (or_else (error resultado) ''Erro ao enviar mensagem'')),
                                s', d')
                          else (Inr \<lparr>success = True, error = None,
                                     messageId = messageId resultado\<rparr>, s', d'))))"

section \<open>Runs used in the properties\<close>

text \<open>
  A run keeps its connects guarded when every call of \<open>initWhatsAppConnection\<close> from
  outside is made while no socket is live and no invocation is in progress.
\<close>

fun connects_guarded :: "manager \<Rightarrow> action list \<Rightarrow> bool" where
  "connects_guarded s [] = True"
| "connects_guarded s (a # as) =
    ((if is_Connect a then live s = [] \<and> in_progress s = 0 else True)
     \<and> connects_guarded (step a s) as)"

text \<open>Updates a socket may deliver, and states and runs built from them.\<close>

definition update_open :: update where
  "update_open = \<lparr>connection = Some Open, statusCode = None, qr = None\<rparr>"

definition update_qr :: update where
  "update_qr = \<lparr>connection = None, statusCode = None, qr = Some ''ABC123''\<rparr>"

definition update_transient :: update where
  "update_transient = \<lparr>connection = Some Close, statusCode = Some 428, qr = None\<rparr>"

definition update_loggedOut :: update where
  "update_loggedOut = \<lparr>connection = Some Close, statusCode = Some loggedOut, qr = None\<rparr>"

definition connect_through :: "action list" where
  \<comment> \<open>one invocation of \<open>initWhatsAppConnection\<close> from call to \<open>return\<close>, nothing throwing\<close>
  "connect_through = [Connect Succeeds, ResumeAuth Succeeds, ResumeVersion Succeeds]"

definition open_state :: manager where
  \<comment> \<open>the module after its first socket has reported \<open>connection = "open"\<close>\<close>
  "open_state = run (connect_through @ [Emit Succeeds 0 update_open]) (boot None)"

definition pairing_state_ex :: manager where
  "pairing_state_ex = run (connect_through @ [Emit Succeeds 0 update_qr]) (boot None)"

definition never_connected :: manager where
  \<comment> \<open>the first invocation failed at \<open>useMultiFileAuthState\<close>, over credentials of an earlier run\<close>
  "never_connected = run [Connect Succeeds, ResumeAuth (Throws None)] (boot (Some ''creds''))"

definition two_sockets :: manager where
  \<comment> \<open>a second call made while the first invocation was still suspended\<close>
  "two_sockets = run [Connect Succeeds, Connect Succeeds, ResumeAuth Succeeds,
     ResumeAuth Succeeds, ResumeVersion Succeeds, ResumeVersion Succeeds] (boot None)"

definition open_and_called :: manager where
  \<comment> \<open>\<open>initWhatsAppConnection\<close> called once more in the open state\<close>
  "open_and_called = run [Connect Succeeds] open_state"

definition open_and_resumed :: manager where
  "open_and_resumed = run [Connect Succeeds, ResumeAuth Succeeds] open_state"

definition idle_calls :: "action list" where
  "idle_calls = [Emit Succeeds 0 update_open, ResumeAuth Succeeds, ResumeVersion Succeeds,
     Send (Resolves None) ''88 99671-0011'' ''hello'']"

definition reconnect_run :: "action list" where
  "reconnect_run = connect_through @ [Emit Succeeds 0 update_qr, Emit Succeeds 0 update_open,
     Emit Succeeds 0 update_transient, ResumeAuth Succeeds, ResumeVersion Succeeds,
     Emit Succeeds 1 update_open, Send (Resolves (Some ''m1'')) ''88 99671-0011'' ''hello'']"

definition stale_run :: "action list" where
  "stale_run = connect_through @ [Emit Succeeds 0 update_qr, Emit Succeeds 0 update_loggedOut]"

text \<open>A table with one client, and a request for that client.\<close>

definition sample_db :: database where
  "sample_db = \<lparr>available = True,
     clientes = [\<lparr>cliente_id = 7, telefone = Some ''(88) 99671-0011''\<rparr>], mensagens = []\<rparr>"

definition sample_input :: create_input where
  "sample_input = \<lparr>clienteId = 7, tipo = Manual, conteudo = ''hello''\<rparr>"

section \<open>Properties\<close>

subsection \<open>Phone numbers\<close>

lemma filter_is_digit_idem: "filter is_digit (filter is_digit t) = filter is_digit t"
  by simp

lemma formatarTelefone_digits: "list_all is_digit (formatarTelefone t)"
  by (simp add: formatarTelefone_def Let_def list_all_iff is_digit_def)

lemma formatarTelefone_prefix: "prefix ''55'' (formatarTelefone t)"
  by (simp add: formatarTelefone_def Let_def)

lemma formatarTelefone_fixed:
  assumes "list_all is_digit d" and "prefix ''55'' d"
  shows "formatarTelefone d = d"
proof -
  from assms(1) have "filter is_digit d = d"
    by (simp add: list_all_iff)
  with assms(2) show ?thesis
    by (simp add: formatarTelefone_def Let_def)
qed

lemma telefoneDestino_eq: "telefoneDestino t = formatarTelefone t"
  by (simp add: telefoneDestino_def formatarTelefone_def)

text \<open>
  C6. Normalising a phone number (dropping every non-digit, then prepending \<open>55\<close>
  unless the digits start with it) is idempotent, in both send paths, and the inputs
  \<open>(88) 99671-0011\<close> and \<open>5588996710011\<close> give the same recipient identifier.
\<close>

theorem formatarTelefone_idempotent:
  "formatarTelefone (formatarTelefone t) = formatarTelefone t
   \<and> telefoneDestino (telefoneDestino t) = telefoneDestino t
   \<and> jid_of ''(88) 99671-0011'' = jid_of ''5588996710011''
   \<and> jid_of ''5588996710011'' = ''5588996710011@s.whatsapp.net''
   \<and> telefoneDestino ''(88) 99671-0011'' = telefoneDestino ''5588996710011''"
proof -
  have idem: "formatarTelefone (formatarTelefone t) = formatarTelefone t"
    by (rule formatarTelefone_fixed [OF formatarTelefone_digits formatarTelefone_prefix])
  have a: "formatarTelefone ''(88) 99671-0011'' = ''5588996710011''"
    by (simp add: formatarTelefone_def is_digit_def)
  have b: "formatarTelefone ''5588996710011'' = ''5588996710011''"
    by (simp add: formatarTelefone_def is_digit_def)
  from idem a b show ?thesis
    by (simp add: telefoneDestino_eq jid_of_def)
qed

subsection \<open>One invocation, part by part\<close>

lemma run_append: "run (as @ bs) s = run bs (run as s)"
  by (induction as arbitrary: s) simp_all

lemma init_call:
  assumes "auth_dir s \<noteq> None \<or> env = Succeeds"
  shows "initWhatsAppConnection env s =
     (None, s\<lparr>inits := Suc (inits s),
       auth_dir := (if auth_dir s = None then Some [] else auth_dir s),
       awaiting_auth := Suc (awaiting_auth s)\<rparr>)"
  using assms by (cases env) (auto simp: initWhatsAppConnection_def Let_def)

lemma after_auth_state_ok:
  assumes "awaiting_auth s = Suc n"
  shows "after_auth_state Succeeds s =
     (None, s\<lparr>awaiting_auth := n, awaiting_version := Suc (awaiting_version s)\<rparr>)"
  using assms by (simp add: after_auth_state_def Let_def)

lemma after_version_ok:
  assumes "awaiting_version s = Suc n"
  shows "after_version Succeeds s =
     (Some \<lparr>success = True, error = None, messageId = None\<rparr>,
      s\<lparr>awaiting_version := n, sock := Some (made s), live := made s # live s,
        made := Suc (made s)\<rparr>)"
  using assms by (simp add: after_version_def Let_def)

lemma connect_through_run:
  assumes "awaiting_auth s = 0" and "awaiting_version s = 0"
  shows "run connect_through s =
     s\<lparr>inits := Suc (inits s),
       auth_dir := (if auth_dir s = None then Some [] else auth_dir s),
       sock := Some (made s), live := made s # live s, made := Suc (made s)\<rparr>"
proof -
  define s1 where "s1 = s\<lparr>inits := Suc (inits s),
       auth_dir := (if auth_dir s = None then Some [] else auth_dir s),
       awaiting_auth := Suc (awaiting_auth s)\<rparr>"
  define s2 where "s2 = s1\<lparr>awaiting_auth := 0, awaiting_version := Suc (awaiting_version s1)\<rparr>"
  have c1: "snd (initWhatsAppConnection Succeeds s) = s1"
    by (simp add: init_call s1_def)
  have a1: "awaiting_auth s1 = Suc 0"
    using assms(1) by (simp add: s1_def)
  have c2: "snd (after_auth_state Succeeds s1) = s2"
    by (simp add: after_auth_state_ok [OF a1] s2_def)
  have a2: "awaiting_version s2 = Suc 0"
    using assms(2) by (simp add: s2_def s1_def)
  have c3: "snd (after_version Succeeds s2) =
      s2\<lparr>awaiting_version := 0, sock := Some (made s2), live := made s2 # live s2,
        made := Suc (made s2)\<rparr>"
    by (simp add: after_version_ok [OF a2])
  have "run connect_through s =
      s2\<lparr>awaiting_version := 0, sock := Some (made s2), live := made s2 # live s2,
        made := Suc (made s2)\<rparr>"
    by (simp add: connect_through_def c1 c2 c3)
  also have "\<dots> = s\<lparr>inits := Suc (inits s),
       auth_dir := (if auth_dir s = None then Some [] else auth_dir s),
       sock := Some (made s), live := made s # live s, made := Suc (made s)\<rparr>"
    using assms by (simp add: s2_def s1_def)
  finally show ?thesis .
qed

lemma boot_connected:
  "run connect_through (boot None) =
     \<lparr>sock = Some 0, isConnected = False, qrCode = None, auth_dir = Some [],
      live = [0], made = Suc 0, inits = Suc 0, sent = [], awaiting_auth = 0,
      awaiting_version = 0\<rparr>"
proof -
  have "awaiting_auth (boot None) = 0" and "awaiting_version (boot None) = 0"
    by (simp_all add: boot_def)
  from connect_through_run [OF this] show ?thesis
    by (simp add: boot_def)
qed

lemma listener_open:
  "on_connection_update env \<lparr>connection = Some Open, statusCode = c, qr = None\<rparr> s =
     s\<lparr>isConnected := True, qrCode := None\<rparr>"
  by (simp add: on_connection_update_def truthy_def)

lemma open_state_eq:
  "open_state = \<lparr>sock = Some 0, isConnected = True, qrCode = None, auth_dir = Some [],
     live = [0], made = Suc 0, inits = Suc 0, sent = [], awaiting_auth = 0,
     awaiting_version = 0\<rparr>"
  by (simp add: open_state_def run_append update_open_def boot_connected emit_def listener_open)

subsection \<open>Sending\<close>

lemma send_open:
  assumes "sock s = Some k" and "isConnected s"
  shows "enviarMensagemBaileys tr tel mensagem s =
    (case tr of
       Resolves i \<Rightarrow> \<lparr>success = True, error = None, messageId = Some (or_else i ''sent'')\<rparr>
     | Rejects m \<Rightarrow> \<lparr>success = False, error = Some (or_else m ''Erro ao enviar mensagem''),
         messageId = None\<rparr>,
     s\<lparr>sent := (k, jid_of tel, mensagem) # sent s\<rparr>)"
  using assms by (simp add: enviarMensagemBaileys_def Let_def split: send_outcome.splits)

lemma send_closed:
  assumes "sock s = None \<or> \<not> isConnected s"
  shows "enviarMensagemBaileys tr tel mensagem s =
    (\<lparr>success = False, error = Some msg_not_connected, messageId = None\<rparr>, s)"
  using assms by (auto simp: enviarMensagemBaileys_def split: option.splits)

text \<open>
  C3. A send while there is no socket or the module is not connected returns at once the
  failure carrying the not-connected message and leaves the whole state as it was: no call
  of the transport is logged and nothing is kept for later. Conversely a send that reaches
  the transport was made with a socket present and the module connected.
\<close>

theorem send_not_open_fails_fast:
  "(sock s = None \<or> \<not> isConnected s \<longrightarrow>
      enviarMensagemBaileys tr tel mensagem s =
        (\<lparr>success = False, error = Some msg_not_connected, messageId = None\<rparr>, s))
   \<and> (sent (snd (enviarMensagemBaileys tr tel mensagem s)) \<noteq> sent s \<longrightarrow>
        sock s \<noteq> None \<and> isConnected s)"
proof -
  have fails: "enviarMensagemBaileys tr tel mensagem s =
      (\<lparr>success = False, error = Some msg_not_connected, messageId = None\<rparr>, s)"
    if "sock s = None \<or> \<not> isConnected s"
    using that by (rule send_closed)
  have "sock s \<noteq> None \<and> isConnected s"
    if changed: "sent (snd (enviarMensagemBaileys tr tel mensagem s)) \<noteq> sent s"
  proof (rule ccontr)
    assume "\<not> (sock s \<noteq> None \<and> isConnected s)"
    then have "sock s = None \<or> \<not> isConnected s" by simp
    then have "snd (enviarMensagemBaileys tr tel mensagem s) = s"
      by (simp add: send_closed)
    with changed show False by simp
  qed
  with fails show ?thesis by blast
qed

theorem send_not_open_fails_fast_witness:
  "sock (boot None) = None
   \<and> enviarMensagemBaileys (Resolves (Some ''m1'')) ''88 99671-0011'' ''hello'' (boot None) =
       (\<lparr>success = False, error = Some msg_not_connected, messageId = None\<rparr>, boot None)
   \<and> sent (snd (enviarMensagemBaileys (Resolves (Some ''m1'')) ''88 99671-0011'' ''hello''
        open_state)) \<noteq> sent open_state
   \<and> sock open_state \<noteq> None \<and> isConnected open_state"
proof -
  have closed: "sock (boot None) = None"
    by (simp add: boot_def)
  have a: "sock open_state = Some 0" and b: "isConnected open_state"
    by (simp_all add: open_state_eq)
  have changed: "sent (snd (enviarMensagemBaileys (Resolves (Some ''m1'')) ''88 99671-0011''
      ''hello'' open_state)) \<noteq> sent open_state"
    by (simp add: send_open [OF a b])
  from closed
    send_not_open_fails_fast [of "boot None" "Resolves (Some ''m1'')" "''88 99671-0011''" "''hello''"]
  have r1: "enviarMensagemBaileys (Resolves (Some ''m1'')) ''88 99671-0011'' ''hello'' (boot None) =
      (\<lparr>success = False, error = Some msg_not_connected, messageId = None\<rparr>, boot None)"
    by blast
  from changed
    send_not_open_fails_fast [of open_state "Resolves (Some ''m1'')" "''88 99671-0011''" "''hello''"]
  have r2: "sock open_state \<noteq> None \<and> isConnected open_state"
    by blast
  from closed r1 changed r2 show ?thesis
    by blast
qed

text \<open>
  C7. With a socket present and the module connected, a send that the transport accepts
  with a non-empty identifier returns success with that identifier; in the scenario of the
  specification the transport receives \<open>5588996710011@s.whatsapp.net\<close> and the caller
  receives \<open>m1\<close>.
\<close>

theorem send_passes_message_id:
  assumes "sock s = Some k" and "isConnected s"
  shows "(i \<noteq> [] \<longrightarrow> fst (enviarMensagemBaileys (Resolves (Some i)) tel mensagem s) =
            \<lparr>success = True, error = None, messageId = Some i\<rparr>)
    \<and> enviarMensagemBaileys (Resolves (Some ''m1'')) ''88 99671-0011'' ''hello'' s =
        (\<lparr>success = True, error = None, messageId = Some ''m1''\<rparr>,
         s\<lparr>sent := (k, ''5588996710011@s.whatsapp.net'', ''hello'') # sent s\<rparr>)"
proof -
  have "jid_of ''88 99671-0011'' = ''5588996710011@s.whatsapp.net''"
    by (simp add: jid_of_def formatarTelefone_def is_digit_def)
  with assms show ?thesis
    by (simp add: send_open or_else_def)
qed

theorem send_passes_message_id_witness:
  "sock open_state = Some 0 \<and> isConnected open_state
   \<and> enviarMensagemBaileys (Resolves (Some ''m1'')) ''88 99671-0011'' ''hello'' open_state =
       (\<lparr>success = True, error = None, messageId = Some ''m1''\<rparr>,
        open_state\<lparr>sent := [(0, ''5588996710011@s.whatsapp.net'', ''hello'')]\<rparr>)"
proof -
  have a: "sock open_state = Some 0" and b: "isConnected open_state"
    by (simp_all add: open_state_eq)
  have c: "sent open_state = []"
    by (simp add: open_state_eq)
  from send_passes_message_id [OF a b, of "''m1''" "''88 99671-0011''" "''hello''"] a b c
  show ?thesis by simp
qed

text \<open>
  C9. Whatever the phone string, the identifier handed to \<open>sock.sendMessage\<close> is
  \<open>d@s.whatsapp.net\<close>, where \<open>d\<close> is the digits of the input, with \<open>55\<close> in front when
  they do not start with it: \<open>d\<close> starts with \<open>55\<close> and holds digits only.
\<close>

theorem jid_shape:
  assumes "sock s = Some k" and "isConnected s"
  shows "\<exists>d. sent (snd (enviarMensagemBaileys tr tel mensagem s)) =
             (k, d @ ''@s.whatsapp.net'', mensagem) # sent s
           \<and> prefix ''55'' d \<and> list_all is_digit d
           \<and> (d = filter is_digit tel \<or> d = ''55'' @ filter is_digit tel)"
proof (intro exI conjI)
  show "sent (snd (enviarMensagemBaileys tr tel mensagem s)) =
      (k, formatarTelefone tel @ ''@s.whatsapp.net'', mensagem) # sent s"
    using assms by (simp add: send_open jid_of_def)
  show "prefix ''55'' (formatarTelefone tel)"
    by (rule formatarTelefone_prefix)
  show "list_all is_digit (formatarTelefone tel)"
    by (rule formatarTelefone_digits)
  show "formatarTelefone tel = filter is_digit tel
      \<or> formatarTelefone tel = ''55'' @ filter is_digit tel"
    by (simp add: formatarTelefone_def Let_def)
qed

theorem jid_shape_witness:
  "sock open_state = Some 0 \<and> isConnected open_state
   \<and> (\<exists>d. sent (snd (enviarMensagemBaileys (Rejects None) ''+55 (88) 9x'' ''oi'' open_state)) =
             (0, d @ ''@s.whatsapp.net'', ''oi'') # sent open_state
           \<and> prefix ''55'' d \<and> list_all is_digit d
           \<and> (d = filter is_digit ''+55 (88) 9x'' \<or> d = ''55'' @ filter is_digit ''+55 (88) 9x''))"
proof -
  have a: "sock open_state = Some 0" and b: "isConnected open_state"
    by (simp_all add: open_state_eq)
  from jid_shape [OF a b, of "Rejects None" "''+55 (88) 9x''" "''oi''"] a b
  show ?thesis by simp
qed

text \<open>
  C10. With a socket present and the module connected, a send that the transport accepts
  without an identifier (the result or its key identifier absent, or the identifier
  empty) still returns success, with the identifier \<open>sent\<close>.
\<close>

theorem send_placeholder_id:
  assumes "sock s = Some k" and "isConnected s" and "\<not> truthy i"
  shows "fst (enviarMensagemBaileys (Resolves i) tel mensagem s) =
    \<lparr>success = True, error = None, messageId = Some ''sent''\<rparr>"
  using assms by (simp add: send_open or_else_def truthy_def split: option.splits)

theorem send_placeholder_id_witness:
  "sock open_state = Some 0 \<and> isConnected open_state \<and> \<not> truthy None
   \<and> fst (enviarMensagemBaileys (Resolves None) ''88 99671-0011'' ''hello'' open_state) =
       \<lparr>success = True, error = None, messageId = Some ''sent''\<rparr>"
proof -
  have a: "sock open_state = Some 0" and b: "isConnected open_state"
    by (simp_all add: open_state_eq)
  have c: "\<not> truthy None"
    by (simp add: truthy_def)
  from send_placeholder_id [OF a b c, of "''88 99671-0011''" "''hello''"] a b c
  show ?thesis by simp
qed

subsection \<open>Connecting and reconnecting\<close>

lemma init_fields:
  "inits (snd (initWhatsAppConnection env s)) = Suc (inits s)"
  "isConnected (snd (initWhatsAppConnection env s)) = isConnected s"
  "qrCode (snd (initWhatsAppConnection env s)) = qrCode s"
  "sock (snd (initWhatsAppConnection env s)) = sock s"
  "live (snd (initWhatsAppConnection env s)) = live s"
  "made (snd (initWhatsAppConnection env s)) = made s"
  "awaiting_version (snd (initWhatsAppConnection env s)) = awaiting_version s"
  "awaiting_auth (snd (initWhatsAppConnection env s)) \<le> Suc (awaiting_auth s)"
  by (cases env; simp add: initWhatsAppConnection_def Let_def)+

lemma after_auth_state_fields:
  "inits (snd (after_auth_state env s)) = inits s"
  "isConnected (snd (after_auth_state env s)) = isConnected s"
  "live (snd (after_auth_state env s)) = live s"
  "in_progress (snd (after_auth_state env s)) \<le> in_progress s"
  by (cases env; simp add: after_auth_state_def in_progress_def Let_def)+

lemma after_version_fields:
  "inits (snd (after_version env s)) = inits s"
  "isConnected (snd (after_version env s)) = isConnected s"
  "length (live (snd (after_version env s))) + in_progress (snd (after_version env s))
     \<le> length (live s) + in_progress s"
  by (cases env; simp add: after_version_def in_progress_def Let_def)+

lemma resume_nothing:
  "awaiting_auth s = 0 \<Longrightarrow> after_auth_state env s = (None, s)"
  "awaiting_version s = 0 \<Longrightarrow> after_version env s = (None, s)"
  by (simp_all add: after_auth_state_def after_version_def)

lemma update_close_loggedOut:
  assumes "connection u = Some Close" and "statusCode u = Some loggedOut"
  shows "on_connection_update env u s =
    (if truthy (qr u) then s\<lparr>qrCode := qr u\<rparr> else s)\<lparr>isConnected := False\<rparr>"
  using assms by (simp add: on_connection_update_def)

lemma update_close_transient:
  assumes "connection u = Some Close" and "statusCode u \<noteq> Some loggedOut"
  shows "on_connection_update env u s =
    snd (initWhatsAppConnection env
      ((if truthy (qr u) then s\<lparr>qrCode := qr u\<rparr> else s)\<lparr>isConnected := False\<rparr>))"
  using assms by (simp add: on_connection_update_def)

lemma update_opened:
  assumes "connection u = Some Open"
  shows "on_connection_update env u s =
    (if truthy (qr u) then s\<lparr>qrCode := qr u\<rparr> else s)\<lparr>isConnected := True, qrCode := None\<rparr>"
  using assms by (simp add: on_connection_update_def)

lemma update_other:
  assumes "connection u \<noteq> Some Close" and "connection u \<noteq> Some Open"
  shows "on_connection_update env u s = (if truthy (qr u) then s\<lparr>qrCode := qr u\<rparr> else s)"
  using assms by (simp add: on_connection_update_def)

lemma disconnect_fields:
  "isConnected (snd (disconnectWhatsApp env s)) \<longrightarrow> isConnected s"
  "inits (snd (disconnectWhatsApp env s)) = inits s"
  "length (live (snd (disconnectWhatsApp env s))) \<le> length (live s)"
  "live s = [] \<longrightarrow> live (snd (disconnectWhatsApp env s)) = []"
  "in_progress (snd (disconnectWhatsApp env s)) = in_progress s"
proof -
  have len: "length (removeAll k (live s)) \<le> length (live s)" for k
    by (simp add: removeAll_filter_not_eq)
  show "isConnected (snd (disconnectWhatsApp env s)) \<longrightarrow> isConnected s"
    by (cases env) (simp_all add: disconnectWhatsApp_def Let_def split: option.splits)
  show "inits (snd (disconnectWhatsApp env s)) = inits s"
    by (cases env) (simp_all add: disconnectWhatsApp_def Let_def split: option.splits)
  show "length (live (snd (disconnectWhatsApp env s))) \<le> length (live s)"
    using len by (cases env) (simp_all add: disconnectWhatsApp_def Let_def split: option.splits)
  show "live s = [] \<longrightarrow> live (snd (disconnectWhatsApp env s)) = []"
    by (cases env) (simp_all add: disconnectWhatsApp_def Let_def split: option.splits)
  show "in_progress (snd (disconnectWhatsApp env s)) = in_progress s"
    by (cases env)
      (simp_all add: disconnectWhatsApp_def in_progress_def Let_def split: option.splits)
qed

lemma send_fields:
  "isConnected (snd (enviarMensagemBaileys tr t m s)) = isConnected s"
  "inits (snd (enviarMensagemBaileys tr t m s)) = inits s"
  "live (snd (enviarMensagemBaileys tr t m s)) = live s"
  "in_progress (snd (enviarMensagemBaileys tr t m s)) = in_progress s"
  by (simp_all add: enviarMensagemBaileys_def in_progress_def Let_def
      split: option.splits send_outcome.splits)

lemma emit_dead: "i \<notin> set (live s) \<Longrightarrow> emit env i u s = s"
  by (simp add: emit_def)

lemma idle_step:
  assumes "live s = []" and "in_progress s = 0" and "\<not> isConnected s" and "\<not> is_Connect a"
  shows "live (step a s) = [] \<and> in_progress (step a s) = 0 \<and> \<not> isConnected (step a s)
    \<and> inits (step a s) = inits s"
proof (cases a)
  case (Connect env)
  with assms(4) show ?thesis by simp
next
  case (ResumeAuth env)
  from assms(2) have "awaiting_auth s = 0" by (simp add: in_progress_def)
  with ResumeAuth assms(1,2,3) show ?thesis by (simp add: resume_nothing)
next
  case (ResumeVersion env)
  from assms(2) have "awaiting_version s = 0" by (simp add: in_progress_def)
  with ResumeVersion assms(1,2,3) show ?thesis by (simp add: resume_nothing)
next
  case (Emit env i u)
  with assms(1,2,3) show ?thesis by (simp add: emit_dead)
next
  case (Send tr t m)
  with assms(1,2,3) show ?thesis by (simp add: send_fields)
next
  case (Logout env)
  with assms(1,2,3) disconnect_fields(1,4) [where env = env and s = s] show ?thesis
    by (simp add: disconnect_fields(2,5))
qed

lemma idle_stays:
  assumes "live s = []" and "in_progress s = 0" and "\<not> isConnected s"
    and "list_all (\<lambda>a. \<not> is_Connect a) as"
  shows "\<not> isConnected (run as s) \<and> inits (run as s) = inits s"
  using assms
proof (induction as arbitrary: s)
  case Nil
  then show ?case by simp
next
  case (Cons a as)
  from Cons.prems have a: "\<not> is_Connect a" and rest: "list_all (\<lambda>a. \<not> is_Connect a) as"
    by simp_all
  from idle_step [OF Cons.prems(1,2,3) a]
  have st: "live (step a s) = []" "in_progress (step a s) = 0" "\<not> isConnected (step a s)"
    "inits (step a s) = inits s"
    by simp_all
  from Cons.IH [OF st(1,2,3) rest] st(4) show ?case by simp
qed

lemma emit_close_loggedOut:
  assumes "connection u = Some Close" and "statusCode u = Some loggedOut" and "i \<in> set (live s)"
  shows "emit env i u s =
    (if truthy (qr u) then s\<lparr>qrCode := qr u\<rparr> else s)
      \<lparr>isConnected := False, live := removeAll i (live s)\<rparr>"
  using assms by (simp add: emit_def update_close_loggedOut)

lemma two_sockets_eq:
  "two_sockets = \<lparr>sock = Some (Suc 0), isConnected = False, qrCode = None, auth_dir = Some [],
     live = [Suc 0, 0], made = Suc (Suc 0), inits = Suc (Suc 0), sent = [], awaiting_auth = 0,
     awaiting_version = 0\<rparr>"
proof -
  define s1 where "s1 = \<lparr>sock = None, isConnected = False, qrCode = None, auth_dir = Some [],
     live = [], made = 0, inits = Suc 0, sent = [], awaiting_auth = Suc 0,
     awaiting_version = 0\<rparr>"
  define s2 where "s2 = s1\<lparr>inits := Suc (Suc 0), awaiting_auth := Suc (Suc 0)\<rparr>"
  define s3 where "s3 = s2\<lparr>awaiting_auth := Suc 0, awaiting_version := Suc 0\<rparr>"
  define s4 where "s4 = s3\<lparr>awaiting_auth := 0, awaiting_version := Suc (Suc 0)\<rparr>"
  define s5 where "s5 = s4\<lparr>awaiting_version := Suc 0, sock := Some 0, live := [0], made := Suc 0\<rparr>"
  have c1: "snd (initWhatsAppConnection Succeeds (boot None)) = s1"
    by (simp add: init_call boot_def s1_def)
  have c2: "snd (initWhatsAppConnection Succeeds s1) = s2"
    by (simp add: init_call s1_def s2_def)
  have "awaiting_auth s2 = Suc (Suc 0)"
    by (simp add: s2_def)
  from after_auth_state_ok [OF this] have c3: "snd (after_auth_state Succeeds s2) = s3"
    by (simp add: s3_def s2_def s1_def)
  have "awaiting_auth s3 = Suc 0"
    by (simp add: s3_def)
  from after_auth_state_ok [OF this] have c4: "snd (after_auth_state Succeeds s3) = s4"
    by (simp add: s4_def s3_def s2_def s1_def)
  have "awaiting_version s4 = Suc (Suc 0)"
    by (simp add: s4_def)
  from after_version_ok [OF this] have c5: "snd (after_version Succeeds s4) = s5"
    by (simp add: s5_def s4_def s3_def s2_def s1_def)
  have "awaiting_version s5 = Suc 0"
    by (simp add: s5_def)
  from after_version_ok [OF this] have c6: "snd (after_version Succeeds s5) =
      s5\<lparr>awaiting_version := 0, sock := Some (Suc 0), live := [Suc 0, 0], made := Suc (Suc 0)\<rparr>"
    by (simp add: s5_def s4_def s3_def s2_def s1_def)
  show ?thesis
    by (simp add: two_sockets_def c1 c2 c3 c4 c5 c6) (simp add: s5_def s4_def s3_def s2_def s1_def)
qed

text \<open>
  C1, amended. On an update with \<open>connection = "close"\<close>: when the status code is anything
  but \<open>loggedOut\<close> (an absent code included), the listener itself calls
  \<open>initWhatsAppConnection\<close> once more, without awaiting it, and leaves the module not
  connected; unless \<open>fs.mkdirSync\<close> throws, one more invocation is then in progress.
  When the status code is \<open>loggedOut\<close>, the listener leaves the module not connected and
  starts nothing: no entry into \<open>initWhatsAppConnection\<close>, no invocation in progress that
  was not before, no socket made, \<open>sock\<close> as before. After such a close the module stays
  not connected, with no further entry into \<open>initWhatsAppConnection\<close>, through any later
  calls, resumptions and updates that hold no call of \<open>initWhatsAppConnection\<close> from
  outside, provided the closed socket was the only live one and no invocation was in
  progress.
\<close>

theorem close_event_reconnect_policy:
  assumes "connection u = Some Close"
  shows "(statusCode u \<noteq> Some loggedOut \<longrightarrow>
            inits (on_connection_update env u s) = Suc (inits s)
            \<and> \<not> isConnected (on_connection_update env u s)
            \<and> (auth_dir s \<noteq> None \<or> env = Succeeds \<longrightarrow>
                 in_progress (on_connection_update env u s) = Suc (in_progress s)))
       \<and> (statusCode u = Some loggedOut \<longrightarrow>
            \<not> isConnected (on_connection_update env u s)
            \<and> inits (on_connection_update env u s) = inits s
            \<and> in_progress (on_connection_update env u s) = in_progress s
            \<and> sock (on_connection_update env u s) = sock s
            \<and> live (on_connection_update env u s) = live s
            \<and> made (on_connection_update env u s) = made s
            \<and> (set (live s) = {i} \<and> in_progress s = 0
                  \<and> list_all (\<lambda>a. \<not> is_Connect a) as \<longrightarrow>
                 \<not> isConnected (run as (emit env i u s))
                 \<and> inits (run as (emit env i u s)) = inits s))"
proof (intro conjI impI)
  assume t: "statusCode u \<noteq> Some loggedOut"
  note eq = update_close_transient [OF assms t]
  show "inits (on_connection_update env u s) = Suc (inits s)"
    by (simp add: eq init_fields)
  show "\<not> isConnected (on_connection_update env u s)"
    by (simp add: eq init_fields)
next
  assume t: "statusCode u \<noteq> Some loggedOut" and d: "auth_dir s \<noteq> None \<or> env = Succeeds"
  define s2 where "s2 = (if truthy (qr u) then s\<lparr>qrCode := qr u\<rparr> else s)\<lparr>isConnected := False\<rparr>"
  have same: "auth_dir s2 = auth_dir s" "in_progress s2 = in_progress s"
    by (simp_all add: s2_def in_progress_def)
  from d same have "auth_dir s2 \<noteq> None \<or> env = Succeeds" by simp
  from init_call [OF this] have "in_progress (snd (initWhatsAppConnection env s2)) = Suc (in_progress s2)"
    by (simp add: in_progress_def)
  moreover have "on_connection_update env u s = snd (initWhatsAppConnection env s2)"
    unfolding s2_def using assms t by (rule update_close_transient)
  ultimately show "in_progress (on_connection_update env u s) = Suc (in_progress s)"
    by (simp add: same)
next
  assume l: "statusCode u = Some loggedOut"
  note eq = update_close_loggedOut [OF assms l]
  show "\<not> isConnected (on_connection_update env u s)"
    by (simp add: eq)
  show "inits (on_connection_update env u s) = inits s"
    by (simp add: eq)
  show "in_progress (on_connection_update env u s) = in_progress s"
    by (simp add: eq in_progress_def)
  show "sock (on_connection_update env u s) = sock s"
    by (simp add: eq)
  show "live (on_connection_update env u s) = live s"
    by (simp add: eq)
  show "made (on_connection_update env u s) = made s"
    by (simp add: eq)
next
  assume l: "statusCode u = Some loggedOut"
    and h: "set (live s) = {i} \<and> in_progress s = 0 \<and> list_all (\<lambda>a. \<not> is_Connect a) as"
  from h have mem: "i \<in> set (live s)" by simp
  note eq = emit_close_loggedOut [OF assms l mem]
  from h have "removeAll i (live s) = []"
    by (metis removeAll_id removeAll.simps(1) set_removeAll Diff_cancel set_empty)
  with h have e: "live (emit env i u s) = []" "in_progress (emit env i u s) = 0"
      "\<not> isConnected (emit env i u s)" "inits (emit env i u s) = inits s"
    by (simp_all add: eq in_progress_def)
  from h have na: "list_all (\<lambda>a. \<not> is_Connect a) as" by simp
  from idle_stays [OF e(1,2,3) na] e(4)
  show "\<not> isConnected (run as (emit env i u s))" by simp
  from idle_stays [OF e(1,2,3) na] e(4)
  show "inits (run as (emit env i u s)) = inits s" by simp
qed

theorem close_event_reconnect_policy_witness:
  "connection update_transient = Some Close
   \<and> statusCode update_transient \<noteq> Some loggedOut
   \<and> inits (on_connection_update Succeeds update_transient open_state) = Suc (inits open_state)
   \<and> \<not> isConnected (on_connection_update Succeeds update_transient open_state)
   \<and> in_progress (on_connection_update Succeeds update_transient open_state) =
       Suc (in_progress open_state)
   \<and> connection update_loggedOut = Some Close
   \<and> statusCode update_loggedOut = Some loggedOut
   \<and> isConnected open_state
   \<and> \<not> isConnected (on_connection_update Succeeds update_loggedOut open_state)
   \<and> inits (on_connection_update Succeeds update_loggedOut open_state) = inits open_state
   \<and> set (live open_state) = {0} \<and> in_progress open_state = 0
   \<and> list_all (\<lambda>a. \<not> is_Connect a) idle_calls
   \<and> \<not> isConnected (run idle_calls (emit Succeeds 0 update_loggedOut open_state))
   \<and> inits (run idle_calls (emit Succeeds 0 update_loggedOut open_state)) = inits open_state"
proof -
  have t1: "connection update_transient = Some Close"
    and t2: "statusCode update_transient \<noteq> Some loggedOut"
    by (simp_all add: update_transient_def loggedOut_def)
  have l1: "connection update_loggedOut = Some Close"
    and l2: "statusCode update_loggedOut = Some loggedOut"
    by (simp_all add: update_loggedOut_def)
  have one: "set (live open_state) = {0}" and none: "in_progress open_state = 0"
    and conn: "isConnected open_state"
    by (simp_all add: open_state_eq in_progress_def)
  have idle: "list_all (\<lambda>a. \<not> is_Connect a) idle_calls"
    by (simp add: idle_calls_def)
  from close_event_reconnect_policy [OF t1, of Succeeds open_state 0 idle_calls] t2
  have a: "inits (on_connection_update Succeeds update_transient open_state) = Suc (inits open_state)
    \<and> \<not> isConnected (on_connection_update Succeeds update_transient open_state)
    \<and> in_progress (on_connection_update Succeeds update_transient open_state) =
       Suc (in_progress open_state)"
    by blast
  from close_event_reconnect_policy [OF l1, of Succeeds open_state 0 idle_calls] l2 one none idle
  have b: "\<not> isConnected (on_connection_update Succeeds update_loggedOut open_state)
    \<and> inits (on_connection_update Succeeds update_loggedOut open_state) = inits open_state
    \<and> \<not> isConnected (run idle_calls (emit Succeeds 0 update_loggedOut open_state))
    \<and> inits (run idle_calls (emit Succeeds 0 update_loggedOut open_state)) = inits open_state"
    by blast
  from t1 t2 l1 l2 one none conn idle a b show ?thesis
    by blast
qed

text \<open>
  The statement of C1 as written fails where it says that the module stays not connected
  until a call from outside: with two sockets live, a \<open>loggedOut\<close> close of the current one
  leaves the module not connected, and the next \<open>connection = "open"\<close> of the other one
  sets it connected again, with no call of \<open>initWhatsAppConnection\<close> in between.
\<close>

theorem other_socket_reopens:
  "connection update_loggedOut = Some Close
   \<and> statusCode update_loggedOut = Some loggedOut
   \<and> sock two_sockets = Some (Suc 0) \<and> live two_sockets = [Suc 0, 0]
   \<and> \<not> isConnected (emit Succeeds (Suc 0) update_loggedOut two_sockets)
   \<and> \<not> is_Connect (Emit Succeeds 0 update_open)
   \<and> isConnected (run [Emit Succeeds 0 update_open]
        (emit Succeeds (Suc 0) update_loggedOut two_sockets))
   \<and> inits (run [Emit Succeeds 0 update_open]
        (emit Succeeds (Suc 0) update_loggedOut two_sockets)) = inits two_sockets"
proof -
  have l1: "connection update_loggedOut = Some Close"
    and l2: "statusCode update_loggedOut = Some loggedOut"
    and l3: "\<not> truthy (qr update_loggedOut)"
    by (simp_all add: update_loggedOut_def truthy_def)
  have mem: "Suc 0 \<in> set (live two_sockets)"
    by (simp add: two_sockets_eq)
  have closed: "emit Succeeds (Suc 0) update_loggedOut two_sockets =
      two_sockets\<lparr>isConnected := False, live := [0]\<rparr>"
    by (simp add: emit_close_loggedOut [OF l1 l2 mem] l3) (simp add: two_sockets_eq)
  have reopened: "emit Succeeds 0 update_open (two_sockets\<lparr>isConnected := False, live := [0]\<rparr>) =
      two_sockets\<lparr>isConnected := True, live := [0], qrCode := None\<rparr>"
    by (simp add: emit_def update_open_def listener_open)
  show ?thesis
    by (simp add: l1 l2 closed reopened) (simp add: two_sockets_eq)
qed

subsection \<open>One live socket\<close>

lemma init_load:
  "length (live (snd (initWhatsAppConnection env s))) + in_progress (snd (initWhatsAppConnection env s))
     \<le> Suc (length (live s) + in_progress s)"
  using init_fields(8) [of env s] by (simp add: in_progress_def init_fields)

lemma update_load:
  "length (live (on_connection_update env u s)) + in_progress (on_connection_update env u s) \<le>
     (if connection u = Some Close then Suc (length (live s) + in_progress s)
      else length (live s) + in_progress s)"
proof (cases "connection u = Some Close")
  case True
  show ?thesis
  proof (cases "statusCode u = Some loggedOut")
    case True
    with \<open>connection u = Some Close\<close> show ?thesis
      by (simp add: update_close_loggedOut in_progress_def)
  next
    case False
    define s2 where "s2 = (if truthy (qr u) then s\<lparr>qrCode := qr u\<rparr> else s)\<lparr>isConnected := False\<rparr>"
    have ls: "live s2 = live s" "in_progress s2 = in_progress s"
      by (simp_all add: s2_def in_progress_def)
    have "on_connection_update env u s = snd (initWhatsAppConnection env s2)"
      unfolding s2_def using True False by (rule update_close_transient)
    with init_load [of env s2] ls True show ?thesis
      by simp
  qed
next
  case False
  show ?thesis
  proof (cases "connection u = Some Open")
    case True
    then show ?thesis by (simp add: update_opened in_progress_def)
  next
    case no: False
    with False show ?thesis by (simp add: update_other in_progress_def)
  qed
qed

lemma emit_load:
  assumes "length (live s) + in_progress s \<le> 1"
  shows "length (live (emit env i u s)) + in_progress (emit env i u s) \<le> 1"
proof (cases "i \<in> set (live s)")
  case False
  with assms show ?thesis by (simp add: emit_dead)
next
  case True
  show ?thesis
  proof (cases "connection u = Some Close")
    case c: True
    define s1 where "s1 = s\<lparr>live := removeAll i (live s)\<rparr>"
    from True have "length (removeAll i (live s)) < length (live s)"
      by (rule length_removeAll_less)
    then have "Suc (length (live s1) + in_progress s1) \<le> length (live s) + in_progress s"
      by (simp add: s1_def in_progress_def)
    with update_load [of env u s1] c assms
    have "length (live (on_connection_update env u s1)) + in_progress (on_connection_update env u s1) \<le> 1"
      by simp
    with True c show ?thesis by (simp add: emit_def s1_def)
  next
    case c: False
    with update_load [of env u s] assms
    have "length (live (on_connection_update env u s)) + in_progress (on_connection_update env u s) \<le> 1"
      by simp
    with True c show ?thesis by (simp add: emit_def)
  qed
qed

lemma guarded_step:
  assumes "length (live s) + in_progress s \<le> 1"
    and "is_Connect a \<longrightarrow> live s = [] \<and> in_progress s = 0"
  shows "length (live (step a s)) + in_progress (step a s) \<le> 1"
proof (cases a)
  case (Connect env)
  with assms(2) have "live s = []" "in_progress s = 0" by simp_all
  with init_load [of env s] Connect show ?thesis by simp
next
  case (ResumeAuth env)
  with assms(1) after_auth_state_fields(4) [of env s] show ?thesis
    by (simp add: after_auth_state_fields(3))
next
  case (ResumeVersion env)
  with assms(1) after_version_fields(3) [of env s] show ?thesis by simp
next
  case (Emit env i u)
  with emit_load [OF assms(1)] show ?thesis by simp
next
  case (Send tr t m)
  with assms(1) show ?thesis by (simp add: send_fields)
next
  case (Logout env)
  with assms(1) disconnect_fields(3) [where env = env and s = s] show ?thesis
    by (simp add: disconnect_fields(5))
qed

lemma guarded_run:
  assumes "length (live s) + in_progress s \<le> 1" and "connects_guarded s as"
  shows "length (live (run as s)) + in_progress (run as s) \<le> 1"
  using assms
proof (induction as arbitrary: s)
  case Nil
  then show ?case by simp
next
  case (Cons a as)
  from Cons.prems(2) have g: "is_Connect a \<longrightarrow> live s = [] \<and> in_progress s = 0"
    and rest: "connects_guarded (step a s) as"
    by (simp_all split: if_splits)
  from guarded_step [OF Cons.prems(1) g]
  have "length (live (step a s)) + in_progress (step a s) \<le> 1" .
  from Cons.IH [OF this rest] show ?case by simp
qed

text \<open>
  C2, amended. \<open>initWhatsAppConnection\<close> has no guard on the state: called in any state
  it starts an invocation (unless \<open>fs.mkdirSync\<close> throws), and an invocation that reaches
  \<open>makeWASocket\<close> makes one new socket, which becomes the current one, while every socket
  already live stays live. Live sockets and invocations in progress together number at
  most one along a run whose calls of \<open>initWhatsAppConnection\<close> from outside are made
  while no socket is live and no invocation is in progress; the reconnection started by
  the listener after a close keeps this bound.
\<close>

theorem connect_unguarded:
  "(auth_dir s \<noteq> None \<or> env = Succeeds \<longrightarrow>
      in_progress (step (Connect env) s) = Suc (in_progress s))
   \<and> (0 < awaiting_auth s \<longrightarrow>
        awaiting_version (step (ResumeAuth Succeeds) s) = Suc (awaiting_version s))
   \<and> (0 < awaiting_version s \<longrightarrow>
        sock (step (ResumeVersion Succeeds) s) = Some (made s)
        \<and> live (step (ResumeVersion Succeeds) s) = made s # live s)
   \<and> (length (live s) + in_progress s \<le> 1 \<and> connects_guarded s as \<longrightarrow>
        length (live (run as s)) + in_progress (run as s) \<le> 1)"
proof -
  have a: "in_progress (step (Connect env) s) = Suc (in_progress s)"
    if "auth_dir s \<noteq> None \<or> env = Succeeds"
    using init_call [OF that] by (simp add: in_progress_def)
  have b: "awaiting_version (step (ResumeAuth Succeeds) s) = Suc (awaiting_version s)"
    if "0 < awaiting_auth s"
  proof -
    from that obtain n where "awaiting_auth s = Suc n"
      by (cases "awaiting_auth s") simp_all
    from after_auth_state_ok [OF this] show ?thesis by simp
  qed
  have c: "sock (step (ResumeVersion Succeeds) s) = Some (made s)
      \<and> live (step (ResumeVersion Succeeds) s) = made s # live s"
    if "0 < awaiting_version s"
  proof -
    from that obtain n where "awaiting_version s = Suc n"
      by (cases "awaiting_version s") simp_all
    from after_version_ok [OF this] show ?thesis by simp
  qed
  have d: "length (live (run as s)) + in_progress (run as s) \<le> 1"
    if "length (live s) + in_progress s \<le> 1 \<and> connects_guarded s as"
    using that guarded_run by blast
  from a b c d show ?thesis by blast
qed

lemma open_and_called_eq:
  "open_and_called = open_state\<lparr>inits := Suc (Suc 0), awaiting_auth := Suc 0\<rparr>"
proof -
  have "auth_dir open_state \<noteq> None \<or> Succeeds = Succeeds" by simp
  from init_call [OF this] show ?thesis
    by (simp add: open_and_called_def) (simp add: open_state_eq)
qed

lemma open_and_resumed_eq:
  "open_and_resumed = open_state\<lparr>inits := Suc (Suc 0), awaiting_version := Suc 0\<rparr>"
proof -
  have "awaiting_auth open_and_called = Suc 0"
    by (simp add: open_and_called_eq)
  from after_auth_state_ok [OF this]
  have "snd (after_auth_state Succeeds open_and_called) =
      open_state\<lparr>inits := Suc (Suc 0), awaiting_version := Suc 0\<rparr>"
    by (simp add: open_and_called_eq) (simp add: open_state_eq)
  moreover have "open_and_resumed = snd (after_auth_state Succeeds open_and_called)"
    by (simp add: open_and_resumed_def open_and_called_def)
  ultimately show ?thesis by simp
qed

theorem connect_unguarded_witness:
  "isConnected open_state \<and> live open_state = [0] \<and> auth_dir open_state \<noteq> None
   \<and> in_progress (step (Connect Succeeds) open_state) = Suc (in_progress open_state)
   \<and> 0 < awaiting_auth open_and_called
   \<and> awaiting_version (step (ResumeAuth Succeeds) open_and_called) =
       Suc (awaiting_version open_and_called)
   \<and> 0 < awaiting_version open_and_resumed
   \<and> sock (step (ResumeVersion Succeeds) open_and_resumed) = Some (made open_and_resumed)
   \<and> live (step (ResumeVersion Succeeds) open_and_resumed) = [Suc 0, 0]
   \<and> length (live (boot None)) + in_progress (boot None) \<le> 1
   \<and> connects_guarded (boot None) reconnect_run
   \<and> length (live (run reconnect_run (boot None))) + in_progress (run reconnect_run (boot None)) \<le> 1"
proof -
  have o: "isConnected open_state" "live open_state = [0]" "auth_dir open_state \<noteq> None"
    by (simp_all add: open_state_eq)
  have p: "0 < awaiting_auth open_and_called" "0 < awaiting_version open_and_resumed"
    by (simp_all add: open_and_called_eq open_and_resumed_eq)
  have q: "made open_and_resumed = Suc 0" "live open_and_resumed = [0]"
    by (simp_all add: open_and_resumed_eq open_state_eq)
  have len: "length (live (boot None)) + in_progress (boot None) \<le> 1"
    by (simp add: boot_def in_progress_def)
  have "live (boot None) = []" "in_progress (boot None) = 0"
    by (simp_all add: boot_def in_progress_def)
  then have g: "connects_guarded (boot None) reconnect_run"
    by (simp add: reconnect_run_def connect_through_def)
  from connect_unguarded [of open_state Succeeds reconnect_run] o(3)
  have a: "in_progress (step (Connect Succeeds) open_state) = Suc (in_progress open_state)"
    by blast
  from connect_unguarded [of open_and_called Succeeds reconnect_run] p(1)
  have b: "awaiting_version (step (ResumeAuth Succeeds) open_and_called) =
       Suc (awaiting_version open_and_called)"
    by blast
  from connect_unguarded [of open_and_resumed Succeeds reconnect_run] p(2)
  have "sock (step (ResumeVersion Succeeds) open_and_resumed) = Some (made open_and_resumed)
      \<and> live (step (ResumeVersion Succeeds) open_and_resumed) =
          made open_and_resumed # live open_and_resumed"
    by blast
  with q have c: "sock (step (ResumeVersion Succeeds) open_and_resumed) = Some (made open_and_resumed)
      \<and> live (step (ResumeVersion Succeeds) open_and_resumed) = [Suc 0, 0]"
    by simp
  from connect_unguarded [of "boot None" Succeeds reconnect_run] len g
  have d: "length (live (run reconnect_run (boot None)))
      + in_progress (run reconnect_run (boot None)) \<le> 1"
    by blast
  from o p len g a b c d show ?thesis by blast
qed

text \<open>
  The statement of C2 as written fails: a second call made while the first invocation is
  still suspended, when no socket is live yet, and a call made when the module is
  connected, each end with two live sockets.
\<close>

theorem connect_twice_two_live:
  "live (run [Connect Succeeds, Connect Succeeds] (boot None)) = []
   \<and> live two_sockets = [Suc 0, 0]
   \<and> isConnected open_state \<and> live open_state = [0]
   \<and> live (run connect_through open_state) = [Suc 0, 0]
   \<and> sock (run connect_through open_state) = Some (Suc 0)"
proof -
  have a: "live (run [Connect Succeeds, Connect Succeeds] (boot None)) = []"
    by (simp add: init_fields boot_def)
  have "awaiting_auth open_state = 0" and "awaiting_version open_state = 0"
    by (simp_all add: open_state_eq)
  from connect_through_run [OF this]
  have b: "live (run connect_through open_state) = [Suc 0, 0]"
    "sock (run connect_through open_state) = Some (Suc 0)"
    by (simp_all add: open_state_eq)
  from a b show ?thesis
    by (simp add: two_sockets_eq open_state_eq)
qed

subsection \<open>Pairing code and logout\<close>

lemma pairing_state:
  "emit Succeeds 0 update_qr (run connect_through (boot None)) =
     \<lparr>sock = Some 0, isConnected = False, qrCode = Some ''ABC123'', auth_dir = Some [],
      live = [0], made = Suc 0, inits = Suc 0, sent = [], awaiting_auth = 0,
      awaiting_version = 0\<rparr>"
proof -
  have "on_connection_update Succeeds update_qr s = s\<lparr>qrCode := Some ''ABC123''\<rparr>" for s
    by (simp add: update_other update_qr_def truthy_def)
  then show ?thesis
    by (simp add: emit_def boot_connected update_qr_def)
qed

lemma disconnect_returns:
  assumes "sock s = Some k" and "fst (disconnectWhatsApp env s) = None"
  shows "snd (disconnectWhatsApp env s) =
    s\<lparr>live := removeAll k (live s), sock := None, isConnected := False, qrCode := None,
      auth_dir := None\<rparr>"
proof (cases env)
  case LogoutOk
  with assms(1) show ?thesis by (simp add: disconnectWhatsApp_def)
next
  case (LogoutThrows e)
  with assms show ?thesis by (simp add: disconnectWhatsApp_def)
next
  case (RmThrows e)
  with assms have "auth_dir s = None"
    by (simp add: disconnectWhatsApp_def Let_def split: if_splits)
  with RmThrows assms(1) show ?thesis
    by (simp add: disconnectWhatsApp_def Let_def)
qed

lemma disconnect_no_sock: "sock s = None \<Longrightarrow> disconnectWhatsApp env s = (None, s)"
  by (simp add: disconnectWhatsApp_def)

text \<open>
  C4, amended. The pairing code is absent after every update with
  \<open>connection = "open"\<close> and after every \<open>disconnectWhatsApp\<close> that finds a socket and
  returns; an update that neither opens nor closes the connection stores the pairing code
  it carries, when that is not empty, and otherwise leaves the stored one as it is.
\<close>

theorem pairing_code_cleared:
  "(connection u = Some Open \<longrightarrow>
      qrCode (on_connection_update env u s) = None \<and> isConnected (on_connection_update env u s))
   \<and> (sock s \<noteq> None \<and> fst (disconnectWhatsApp lenv s) = None \<longrightarrow>
        qrCode (snd (disconnectWhatsApp lenv s)) = None)
   \<and> (connection u \<noteq> Some Open \<and> connection u \<noteq> Some Close \<longrightarrow>
        qrCode (on_connection_update env u s) = (if truthy (qr u) then qr u else qrCode s)
        \<and> isConnected (on_connection_update env u s) = isConnected s)"
proof -
  have a: "qrCode (on_connection_update env u s) = None \<and> isConnected (on_connection_update env u s)"
    if "connection u = Some Open"
    using that by (simp add: update_opened)
  have b: "qrCode (snd (disconnectWhatsApp lenv s)) = None"
    if "sock s \<noteq> None \<and> fst (disconnectWhatsApp lenv s) = None"
  proof -
    from that obtain k where "sock s = Some k" by blast
    from disconnect_returns [OF this] that show ?thesis by simp
  qed
  have c: "qrCode (on_connection_update env u s) = (if truthy (qr u) then qr u else qrCode s)
      \<and> isConnected (on_connection_update env u s) = isConnected s"
    if "connection u \<noteq> Some Open \<and> connection u \<noteq> Some Close"
    using that by (simp add: update_other)
  from a b c show ?thesis by blast
qed

theorem pairing_code_cleared_witness:
  "connection update_open = Some Open
   \<and> qrCode pairing_state_ex = Some ''ABC123''
   \<and> qrCode (on_connection_update Succeeds update_open pairing_state_ex) = None
   \<and> isConnected (on_connection_update Succeeds update_open pairing_state_ex)
   \<and> sock pairing_state_ex \<noteq> None \<and> fst (disconnectWhatsApp LogoutOk pairing_state_ex) = None
   \<and> qrCode (snd (disconnectWhatsApp LogoutOk pairing_state_ex)) = None
   \<and> connection update_qr \<noteq> Some Open \<and> connection update_qr \<noteq> Some Close
   \<and> qrCode (on_connection_update Succeeds update_qr open_state) = Some ''ABC123''"
proof -
  have o: "connection update_open = Some Open"
    by (simp add: update_open_def)
  have p: "pairing_state_ex =
      \<lparr>sock = Some 0, isConnected = False, qrCode = Some ''ABC123'', auth_dir = Some [],
       live = [0], made = Suc 0, inits = Suc 0, sent = [], awaiting_auth = 0,
       awaiting_version = 0\<rparr>"
    by (simp add: pairing_state_ex_def run_append pairing_state)
  have q: "qrCode pairing_state_ex = Some ''ABC123''" and s: "sock pairing_state_ex \<noteq> None"
    by (simp_all add: p)
  have r: "fst (disconnectWhatsApp LogoutOk pairing_state_ex) = None"
    by (simp add: disconnectWhatsApp_def split: option.splits)
  have n: "connection update_qr \<noteq> Some Open \<and> connection update_qr \<noteq> Some Close"
    and t: "truthy (qr update_qr)" and v: "qr update_qr = Some ''ABC123''"
    by (simp_all add: update_qr_def truthy_def)
  from pairing_code_cleared [of update_open Succeeds pairing_state_ex LogoutOk] o s r
  have a: "qrCode (on_connection_update Succeeds update_open pairing_state_ex) = None
      \<and> isConnected (on_connection_update Succeeds update_open pairing_state_ex)
      \<and> qrCode (snd (disconnectWhatsApp LogoutOk pairing_state_ex)) = None"
    by blast
  from pairing_code_cleared [of update_qr Succeeds open_state LogoutOk] n t v
  have b: "qrCode (on_connection_update Succeeds update_qr open_state) = Some ''ABC123''"
    by simp
  from o q s r n a b show ?thesis by blast
qed

text \<open>
  The statement of C4 as written fails: a pairing code stored while pairing is still
  reported after the socket has closed with \<open>loggedOut\<close>, when no socket is live and no
  reconnection has been made.
\<close>

theorem close_keeps_pairing_code:
  "qrCode (run stale_run (boot None)) = Some ''ABC123''
   \<and> \<not> isConnected (run stale_run (boot None))
   \<and> live (run stale_run (boot None)) = []
   \<and> inits (run stale_run (boot None)) = Suc 0
   \<and> getWhatsAppStatus (run stale_run (boot None)) =
       \<lparr>connected = False, status_qrCode = Some ''ABC123''\<rparr>"
proof -
  have c: "connection update_loggedOut = Some Close"
    and l: "statusCode update_loggedOut = Some loggedOut"
    and q: "\<not> truthy (qr update_loggedOut)"
    by (simp_all add: update_loggedOut_def truthy_def)
  have "run stale_run (boot None) =
      \<lparr>sock = Some 0, isConnected = False, qrCode = Some ''ABC123'', auth_dir = Some [],
       live = [], made = Suc 0, inits = Suc 0, sent = [], awaiting_auth = 0,
       awaiting_version = 0\<rparr>"
    by (simp add: stale_run_def run_append pairing_state emit_close_loggedOut [OF c l] q)
  then show ?thesis
    by (simp add: getWhatsAppStatus_def)
qed

text \<open>
  C5, amended. When a socket is present and \<open>disconnectWhatsApp\<close> returns,
  \<open>getWhatsAppStatus\<close> reports \<open>connected = false\<close> and \<open>qrCode = null\<close> and nothing is
  persisted under \<open>AUTH_DIR\<close>; it does return when neither \<open>sock.logout()\<close> nor the
  removal of the directory throws. When no socket is present, \<open>disconnectWhatsApp\<close>
  returns without changing anything.
\<close>

theorem logout_with_socket:
  "(sock s \<noteq> None \<and> fst (disconnectWhatsApp env s) = None \<longrightarrow>
      getWhatsAppStatus (snd (disconnectWhatsApp env s)) =
        \<lparr>connected = False, status_qrCode = None\<rparr>
      \<and> credentials (snd (disconnectWhatsApp env s)) = None
      \<and> sock (snd (disconnectWhatsApp env s)) = None)
   \<and> (sock s \<noteq> None \<longrightarrow> fst (disconnectWhatsApp LogoutOk s) = None)
   \<and> (sock s = None \<longrightarrow> disconnectWhatsApp env s = (None, s))"
proof -
  have a: "getWhatsAppStatus (snd (disconnectWhatsApp env s)) =
        \<lparr>connected = False, status_qrCode = None\<rparr>
      \<and> credentials (snd (disconnectWhatsApp env s)) = None
      \<and> sock (snd (disconnectWhatsApp env s)) = None"
    if "sock s \<noteq> None \<and> fst (disconnectWhatsApp env s) = None"
  proof -
    from that obtain k where "sock s = Some k" by blast
    from disconnect_returns [OF this] that show ?thesis
      by (simp add: getWhatsAppStatus_def credentials_def)
  qed
  have b: "fst (disconnectWhatsApp LogoutOk s) = None"
    by (simp add: disconnectWhatsApp_def split: option.splits)
  have c: "disconnectWhatsApp env s = (None, s)" if "sock s = None"
    using that by (rule disconnect_no_sock)
  from a b c show ?thesis by blast
qed

theorem logout_with_socket_witness:
  "sock open_state \<noteq> None \<and> fst (disconnectWhatsApp LogoutOk open_state) = None
   \<and> getWhatsAppStatus (snd (disconnectWhatsApp LogoutOk open_state)) =
        \<lparr>connected = False, status_qrCode = None\<rparr>
   \<and> credentials (snd (disconnectWhatsApp LogoutOk open_state)) = None
   \<and> sock (boot None) = None \<and> disconnectWhatsApp LogoutOk (boot None) = (None, boot None)"
proof -
  have s: "sock open_state \<noteq> None"
    by (simp add: open_state_eq)
  have n: "sock (boot None) = None"
    by (simp add: boot_def)
  from logout_with_socket [of open_state LogoutOk] s
  have a: "fst (disconnectWhatsApp LogoutOk open_state) = None
      \<and> getWhatsAppStatus (snd (disconnectWhatsApp LogoutOk open_state)) =
        \<lparr>connected = False, status_qrCode = None\<rparr>
      \<and> credentials (snd (disconnectWhatsApp LogoutOk open_state)) = None"
    by blast
  from logout_with_socket [of "boot None" LogoutOk] n
  have b: "disconnectWhatsApp LogoutOk (boot None) = (None, boot None)"
    by blast
  from s n a b show ?thesis by blast
qed

text \<open>
  The statement of C5 as written fails for a module that never obtained a socket: the
  guard \<open>if (sock)\<close> skips the whole body, and the credentials found under \<open>AUTH_DIR\<close>
  at start are still there after \<open>disconnectWhatsApp\<close> has returned.
\<close>

theorem logout_without_socket_keeps_credentials:
  "sock never_connected = None
   \<and> disconnectWhatsApp LogoutOk never_connected = (None, never_connected)
   \<and> credentials (snd (disconnectWhatsApp LogoutOk never_connected)) = Some ''creds''"
proof -
  have n: "never_connected = \<lparr>sock = None, isConnected = False, qrCode = None,
      auth_dir = Some ''creds'', live = [], made = 0, inits = Suc 0, sent = [],
      awaiting_auth = 0, awaiting_version = 0\<rparr>"
    by (simp add: never_connected_def init_call boot_def after_auth_state_def)
  have a: "sock never_connected = None" and c: "credentials never_connected = Some ''creds''"
    by (simp_all add: n credentials_def)
  from a c show ?thesis
    by (simp add: disconnect_no_sock)
qed

subsection \<open>The notification gateway\<close>

lemma create_after_send:
  assumes "conteudo inp \<noteq> []" and "getClienteById d (clienteId inp) = Some c"
    and "telefone c = Some tel" and "tel \<noteq> []"
  shows "mensagens_create tr None now usuario inp (s, d) =
    (let r = enviarMensagemBaileys tr tel (conteudo inp) s in
      (if success (fst r)
       then Inr \<lparr>success = True, error = None, messageId = messageId (fst r)\<rparr>
       else Inl (Thrown (or_else (error (fst r)) ''Erro ao enviar mensagem'')),
       snd r,
       d\<lparr>mensagens := mensagens d @
          [\<lparr>clienteId = clienteId inp, tipo = tipo inp, conteudo = conteudo inp,
            status = (if success (fst r) then ''enviada'' else ''erro''),
            dataEnvio = (if success (fst r) then Some now else None),
            usuarioId = usuario\<rparr>]\<rparr>))"
proof -
  from assms(2) have av: "available d"
    by (simp add: getClienteById_def split: if_splits)
  show ?thesis
    unfolding mensagens_create_def Let_def
    by (simp add: assms av createMensagem_def)
qed

lemma sample_cliente:
  "getClienteById sample_db (clienteId sample_input) =
     Some \<lparr>cliente_id = 7, telefone = Some ''(88) 99671-0011''\<rparr>"
  by (simp add: getClienteById_def sample_db_def sample_input_def)

text \<open>
  C8, amended. When the input is valid, the client exists with a non-empty phone and
  the insert does not throw, \<open>mensagens.create\<close> appends exactly one row after calling
  the send: with status \<open>enviada\<close> and \<open>dataEnvio\<close> the current time when the send
  succeeded, with status \<open>erro\<close> and no \<open>dataEnvio\<close> when it failed. The row holds the
  fields of the input and the user, and no message identifier. On success the identifier
  goes to the caller; on failure the error of the send is thrown.
\<close>

theorem create_persists_one_record:
  assumes "conteudo inp \<noteq> []" and "getClienteById d (clienteId inp) = Some c"
    and "telefone c = Some tel" and "tel \<noteq> []"
  shows "mensagens (snd (snd (mensagens_create tr None now usuario inp (s, d)))) =
      mensagens d @
        [\<lparr>clienteId = clienteId inp, tipo = tipo inp, conteudo = conteudo inp,
          status = (if success (fst (enviarMensagemBaileys tr tel (conteudo inp) s))
                    then ''enviada'' else ''erro''),
          dataEnvio = (if success (fst (enviarMensagemBaileys tr tel (conteudo inp) s))
                       then Some now else None),
          usuarioId = usuario\<rparr>]
    \<and> fst (mensagens_create tr None now usuario inp (s, d)) =
      (if success (fst (enviarMensagemBaileys tr tel (conteudo inp) s))
       then Inr \<lparr>success = True, error = None,
              messageId = messageId (fst (enviarMensagemBaileys tr tel (conteudo inp) s))\<rparr>
       else Inl (Thrown (or_else (error (fst (enviarMensagemBaileys tr tel (conteudo inp) s)))
              ''Erro ao enviar mensagem'')))
    \<and> fst (snd (mensagens_create tr None now usuario inp (s, d))) =
      snd (enviarMensagemBaileys tr tel (conteudo inp) s)"
proof -
  note run = create_after_send [OF assms, of tr now usuario s]
  show ?thesis
  proof (cases "success (fst (enviarMensagemBaileys tr tel (conteudo inp) s))")
    case True
    with run show ?thesis by (simp add: Let_def)
  next
    case False
    with run show ?thesis by (simp add: Let_def)
  qed
qed

theorem create_persists_one_record_witness:
  "conteudo sample_input \<noteq> []
   \<and> getClienteById sample_db (clienteId sample_input) =
       Some \<lparr>cliente_id = 7, telefone = Some ''(88) 99671-0011''\<rparr>
   \<and> mensagens (snd (snd (mensagens_create (Rejects None) None 1000 None sample_input
        (open_state, sample_db)))) =
       [\<lparr>clienteId = 7, tipo = Manual, conteudo = ''hello'', status = ''erro'',
         dataEnvio = None, usuarioId = None\<rparr>]
   \<and> fst (mensagens_create (Rejects None) None 1000 None sample_input (open_state, sample_db)) =
       Inl (Thrown ''Erro ao enviar mensagem'')"
proof -
  have a: "sock open_state = Some 0" and b: "isConnected open_state"
    by (simp_all add: open_state_eq)
  have i: "conteudo sample_input \<noteq> []" "conteudo sample_input = ''hello''"
    "clienteId sample_input = 7" "tipo sample_input = Manual" "mensagens sample_db = []"
    by (simp_all add: sample_input_def sample_db_def)
  have t: "telefone \<lparr>cliente_id = 7, telefone = Some ''(88) 99671-0011''\<rparr> = Some ''(88) 99671-0011''"
    and n: "''(88) 99671-0011'' \<noteq> []"
    by simp_all
  have r: "fst (enviarMensagemBaileys (Rejects None) ''(88) 99671-0011'' ''hello'' open_state) =
      \<lparr>success = False, error = Some ''Erro ao enviar mensagem'', messageId = None\<rparr>"
    by (simp add: send_open [OF a b] or_else_def)
  from create_persists_one_record [OF i(1) sample_cliente t n, of "Rejects None" 1000 None open_state]
  have "mensagens (snd (snd (mensagens_create (Rejects None) None 1000 None sample_input
        (open_state, sample_db)))) =
       [\<lparr>clienteId = 7, tipo = Manual, conteudo = ''hello'', status = ''erro'',
         dataEnvio = None, usuarioId = None\<rparr>]
    \<and> fst (mensagens_create (Rejects None) None 1000 None sample_input (open_state, sample_db)) =
       Inl (Thrown ''Erro ao enviar mensagem'')"
    by (simp add: i r or_else_def)
  with i(1) sample_cliente show ?thesis by blast
qed

text \<open>
  The statement of C8 as written fails: the row written on success does not hold the
  message identifier. Sends answered with \<open>m1\<close> and with \<open>m2\<close> leave the same table.
\<close>

theorem record_omits_message_id:
  "mensagens_create (Resolves (Some ''m1'')) None 1000 (Some ''u1'') sample_input
      (open_state, sample_db) =
     (Inr \<lparr>success = True, error = None, messageId = Some ''m1''\<rparr>,
      open_state\<lparr>sent := [(0, ''5588996710011@s.whatsapp.net'', ''hello'')]\<rparr>,
      sample_db\<lparr>mensagens := [\<lparr>clienteId = 7, tipo = Manual, conteudo = ''hello'',
        status = ''enviada'', dataEnvio = Some 1000, usuarioId = Some ''u1''\<rparr>]\<rparr>)
   \<and> snd (snd (mensagens_create (Resolves (Some ''m2'')) None 1000 (Some ''u1'') sample_input
        (open_state, sample_db))) =
      snd (snd (mensagens_create (Resolves (Some ''m1'')) None 1000 (Some ''u1'') sample_input
        (open_state, sample_db)))"
proof -
  have a: "sock open_state = Some 0" and b: "isConnected open_state"
    and e: "sent open_state = []"
    by (simp_all add: open_state_eq)
  have j: "jid_of ''(88) 99671-0011'' = ''5588996710011@s.whatsapp.net''"
    by (simp add: jid_of_def formatarTelefone_def is_digit_def)
  have i: "conteudo sample_input \<noteq> []" "conteudo sample_input = ''hello''"
    "clienteId sample_input = 7" "tipo sample_input = Manual" "mensagens sample_db = []"
    by (simp_all add: sample_input_def sample_db_def)
  have t: "telefone \<lparr>cliente_id = 7, telefone = Some ''(88) 99671-0011''\<rparr> = Some ''(88) 99671-0011''"
    and n: "''(88) 99671-0011'' \<noteq> []"
    by simp_all
  note c = create_after_send [OF i(1) sample_cliente t n]
  show ?thesis
    by (simp add: c send_open [OF a b] i j e or_else_def)
qed

end
